theory Spec2Isabelle
  imports Complex_Main "HOL-Library.Sublist"
begin

section \<open>Python values used by the backend\<close>

text \<open>
  A Python \<open>str\<close> is modelled as a \<open>string\<close> whose characters are the code points
  0 to 255, so \<open>length\<close> counts characters as Python's \<open>len\<close> does. \<open>bytes\<close> is a list
  of naturals below 256. Exceptions are values: a call returns its outcome together with
  the state it leaves behind, because a mutation made before a raise stays made.
\<close>

datatype exn =
    ValueError string
  | HTTPException nat string
  | Exception string
  | LibraryError string

type_synonym bytes = "nat list"

type_synonym 'a outcome = "exn + 'a"

subsection \<open>String operations\<close>

definition lower_char :: "char \<Rightarrow> char" where
  \<comment> \<open>\<open>str.lower\<close> on one code point below 256: A to Z, and the Latin-1 capitals
      (192 to 222 without the multiplication sign 215), move up by 32.\<close>
  "lower_char c =
     (let n = (of_char c :: nat)
      in if (65 \<le> n \<and> n \<le> 90) \<or> (192 \<le> n \<and> n \<le> 222 \<and> n \<noteq> 215)
         then char_of (n + 32) else c)"

definition lower :: "string \<Rightarrow> string" where
  "lower s = map lower_char s"

fun split_on :: "char \<Rightarrow> string \<Rightarrow> string list" where
  \<comment> \<open>\<open>s.split(sep)\<close> for a one-character separator: never an empty list.\<close>
  "split_on sep [] = [[]]"
| "split_on sep (c # cs) =
     (if c = sep then [] # split_on sep cs
      else (case split_on sep cs of
              [] \<Rightarrow> [[c]]
            | w # ws \<Rightarrow> (c # w) # ws))"

fun join :: "'a list \<Rightarrow> 'a list list \<Rightarrow> 'a list" where
  \<comment> \<open>\<open>sep.join(parts)\<close>\<close>
  "join sep [] = []"
| "join sep [x] = x"
| "join sep (x # y # ys) = x @ sep @ join sep (y # ys)"

definition is_space :: "char \<Rightarrow> bool" where
  \<comment> \<open>\<open>str.isspace\<close> on one code point below 256.\<close>
  "is_space c =
     (let n = (of_char c :: nat)
      in (9 \<le> n \<and> n \<le> 13) \<or> (28 \<le> n \<and> n \<le> 32) \<or> n = 133 \<or> n = 160)"

definition strip :: "string \<Rightarrow> string" where
  "strip s = rev (dropWhile is_space (rev (dropWhile is_space s)))"

function str_nat :: "nat \<Rightarrow> string" where
  \<comment> \<open>The decimal rendering of a non-negative \<open>int\<close> inside an f-string.\<close>
  "str_nat n =
     (if n < 10 then [char_of (48 + n)]
      else str_nat (n div 10) @ [char_of (48 + n mod 10)])"
  by pat_completeness auto
termination
  by (relation "measure id") auto

declare str_nat.simps [simp del]


section \<open>chroma\_service.py: the vector store gateway\<close>

text \<open>
  The database client is an external library. Its operations are the fields of a record,
  over a store state \<open>'s\<close> that the model does not look into; each one may raise.
\<close>

record metadata =
  meta_filename :: string
  meta_chunk_index :: nat
  meta_total_chunks :: nat
  meta_batch_id :: nat

record add_call =
  documents :: "string list"
  metadatas :: "metadata list"
  ids :: "string list"

type_synonym collection = string

record query_results =
  res_documents :: "string list list option"

record 's chroma_client =
  client_get_or_create_collection :: "string \<Rightarrow> 's \<Rightarrow> collection outcome \<times> 's"
  collection_add :: "collection \<Rightarrow> add_call \<Rightarrow> 's \<Rightarrow> unit outcome \<times> 's"
  collection_query ::
    "collection \<Rightarrow> string list \<Rightarrow> nat \<Rightarrow> 's \<Rightarrow> query_results option outcome \<times> 's"
  client_list_collections :: "'s \<Rightarrow> collection list outcome \<times> 's"
  client_delete_collection :: "string \<Rightarrow> 's \<Rightarrow> unit outcome \<times> 's"

definition get_or_create_collection ::
  "'s chroma_client \<Rightarrow> string \<Rightarrow> 's \<Rightarrow> collection outcome \<times> 's" where
  "get_or_create_collection client name s =
     (case client_get_or_create_collection client name s of
        (Inr collection, s') \<Rightarrow> (Inr collection, s')
      | (Inl e, s') \<Rightarrow> (Inl e, s'))"

definition add_documents ::
  "'s chroma_client \<Rightarrow> collection \<Rightarrow> string list \<Rightarrow> metadata list \<Rightarrow> string list
     \<Rightarrow> 's \<Rightarrow> unit outcome \<times> 's" where
  "add_documents client collection docs metas idents s =
     (case collection_add client collection
             \<lparr>documents = docs, metadatas = metas, ids = idents\<rparr> s of
        (Inr u, s') \<Rightarrow> (Inr (), s')
      | (Inl e, s') \<Rightarrow> (Inl e, s'))"

definition query ::
  "'s chroma_client \<Rightarrow> collection \<Rightarrow> string list \<Rightarrow> nat \<Rightarrow> 's
     \<Rightarrow> query_results option outcome \<times> 's" where
  "query client collection query_texts n_results s =
     (case collection_query client collection query_texts n_results s of
        (Inr results, s') \<Rightarrow> (Inr results, s')
      | (Inl e, s') \<Rightarrow> (Inl e, s'))"

definition list_collections ::
  "'s chroma_client \<Rightarrow> 's \<Rightarrow> string list outcome \<times> 's" where
  "list_collections client s =
     (case client_list_collections client s of
        (Inr collections, s') \<Rightarrow> (Inr (map (\<lambda>col. col) collections), s')
      | (Inl e, s') \<Rightarrow> (Inl e, s'))"

definition chroma_delete_collection ::
  "'s chroma_client \<Rightarrow> string \<Rightarrow> 's \<Rightarrow> unit outcome \<times> 's" where
  "chroma_delete_collection client name s =
     (case client_delete_collection client name s of
        (Inr u, s') \<Rightarrow> (Inr (), s')
      | (Inl e, s') \<Rightarrow> (Inl e, s'))"

section \<open>rag\_service.py\<close>

subsection \<open>\_store\_chunks\_in\_batches\<close>

function store_loop ::
  "'s chroma_client \<Rightarrow> collection \<Rightarrow> string list \<Rightarrow> string \<Rightarrow> string \<Rightarrow> nat \<Rightarrow> 's
     \<Rightarrow> unit outcome \<times> 's" where
  \<comment> \<open>The body of \<open>for i in range(0, total_chunks, batch_size)\<close> from index \<open>i\<close> on,
      with \<open>batch_size = 100\<close>.\<close>
  "store_loop client collection chunks fname collection_name i s =
     (if i < length chunks then
        (let batch_end = min (i + 100) (length chunks);
             batch_chunks = take (batch_end - i) (drop i chunks);
             metas = map (\<lambda>j. \<lparr>meta_filename = fname,
                                meta_chunk_index = i + j,
                                meta_total_chunks = length chunks,
                                meta_batch_id = i div 100\<rparr>)
                         [0..<length batch_chunks];
             idents = map (\<lambda>j. collection_name @ ''_'' @ str_nat (i + j))
                          [0..<length batch_chunks]
         in (case add_documents client collection batch_chunks metas idents s of
               (Inl e, s') \<Rightarrow> (Inl e, s')
             | (Inr u, s') \<Rightarrow>
                 store_loop client collection chunks fname collection_name (i + 100) s'))
      else (Inr (), s))"
  by pat_completeness auto
termination
  by (relation "measure (\<lambda>(client, collection, chunks, fname, collection_name, i, s).
                          length chunks - i)") auto

declare store_loop.simps [simp del]

definition store_chunks_in_batches ::
  "'s chroma_client \<Rightarrow> collection \<Rightarrow> string list \<Rightarrow> string \<Rightarrow> string \<Rightarrow> 's
     \<Rightarrow> unit outcome \<times> 's" where
  "store_chunks_in_batches client collection chunks fname collection_name s =
     store_loop client collection chunks fname collection_name 0 s"





subsection \<open>External libraries of the service\<close>

text \<open>
  An image is what the service reads of a PIL image: its size, its mode and its pixel
  data. The PDF and DOCX parsers, the text splitter, the image operations and the
  generation model are libraries; each is a field that may raise. \<open>thumbnail\<close> works on
  the image in place, so it yields its outcome together with the image as the call leaves
  it: the library may already have changed the image when it raises.
\<close>

record image =
  img_size :: "nat \<times> nat"
  img_mode :: string
  img_data :: bytes

record pdf_page =
  page_get_text :: "string outcome"
  page_get_images :: "image outcome list outcome"

datatype prompt_part = Text string | Picture image

record response =
  response_text :: "string option outcome"

record libs =
  fitz_open :: "bytes \<Rightarrow> pdf_page list outcome"
  docx_paragraphs :: "bytes \<Rightarrow> string list outcome"
  decode_utf8 :: "bytes \<Rightarrow> string outcome"
  split_text :: "string \<Rightarrow> string list outcome"
  thumbnail :: "nat \<times> nat \<Rightarrow> image \<Rightarrow> unit outcome \<times> image"
  convert :: "string \<Rightarrow> image \<Rightarrow> image outcome"
  generate_content :: "prompt_part list \<Rightarrow> response outcome"
  http_exception_str :: "nat \<Rightarrow> string \<Rightarrow> string"

fun str_exn :: "libs \<Rightarrow> exn \<Rightarrow> string" where
  \<comment> \<open>\<open>str(e)\<close>; a library error carries its own rendering.\<close>
  "str_exn l (ValueError m) = m"
| "str_exn l (Exception m) = m"
| "str_exn l (LibraryError m) = m"
| "str_exn l (HTTPException status_code detail) = http_exception_str l status_code detail"

record 's app_state =
  IMAGE_CACHE :: "string \<rightharpoonup> image list"
  chroma :: 's
  background_tasks :: "(bytes \<times> string \<times> string \<times> string) list"

subsection \<open>\_extract\_text\_and\_images\_from\_pdf and \_extract\_text\_from\_docx\<close>

fun page_images_loop :: "image outcome list \<Rightarrow> image list \<Rightarrow> image list" where
  "page_images_loop [] images = images"
| "page_images_loop (Inl e # infos) images = page_images_loop infos images"
| "page_images_loop (Inr pil_image # infos) images =
     (if fst (img_size pil_image) > 50 \<and> snd (img_size pil_image) > 50
      then page_images_loop infos (images @ [pil_image])
      else page_images_loop infos images)"

fun pages_loop :: "pdf_page list \<Rightarrow> string \<times> image list \<Rightarrow> string \<times> image list" where
  "pages_loop [] (text, images) = (text, images)"
| "pages_loop (page # pages) (text, images) =
     (case page_get_text page of
        Inl e \<Rightarrow> pages_loop pages (text, images)
      | Inr page_text \<Rightarrow>
          (case page_get_images page of
             Inl e \<Rightarrow> pages_loop pages (text @ page_text @ [CHR 0x0A], images)
           | Inr infos \<Rightarrow>
               pages_loop pages
                 (text @ page_text @ [CHR 0x0A], page_images_loop infos images)))"

definition extract_text_and_images_from_pdf ::
  "libs \<Rightarrow> bytes \<Rightarrow> (string \<times> image list) outcome" where
  "extract_text_and_images_from_pdf l file_bytes =
     (case fitz_open l file_bytes of
        Inl e \<Rightarrow> Inl e
      | Inr pdf_document \<Rightarrow> Inr (pages_loop pdf_document ([], [])))"

definition extract_text_from_docx :: "libs \<Rightarrow> bytes \<Rightarrow> string outcome" where
  "extract_text_from_docx l file_bytes =
     (case docx_paragraphs l file_bytes of
        Inl e \<Rightarrow> Inl e
      | Inr paragraphs \<Rightarrow> Inr (join [CHR 0x0A] paragraphs))"

subsection \<open>\_optimize\_image\<close>

definition optimize_image :: "libs \<Rightarrow> image \<Rightarrow> nat \<times> nat \<Rightarrow> image" where
  \<comment> \<open>\<open>image.thumbnail(...)\<close> changes the object \<open>image\<close> in place, and the handler
      \<open>return image\<close> returns that object as the failed call left it; when \<open>convert\<close>
      raises, the name \<open>image\<close> is still bound to the (possibly resized) object.\<close>
  "optimize_image l img max_size =
     (case (if fst (img_size img) > fst max_size \<or> snd (img_size img) > snd max_size
            then thumbnail l max_size img else (Inr (), img)) of
        (Inl e, img1) \<Rightarrow> img1
      | (Inr u, img1) \<Rightarrow>
          (if img_mode img1 \<notin> {''RGB'', ''L''}
           then (case convert l ''RGB'' img1 of
                   Inl e \<Rightarrow> img1
                 | Inr img2 \<Rightarrow> img2)
           else img1))"

subsection \<open>process\_document\<close>

definition file_extension :: "string \<Rightarrow> string" where
  \<comment> \<open>\<open>filename.lower().split('.')[-1]\<close>\<close>
  "file_extension fname = last (split_on CHR ''.'' (lower fname))"

definition extract_by_extension ::
  "libs \<Rightarrow> bytes \<Rightarrow> string \<Rightarrow> (string \<times> image list) outcome" where
  \<comment> \<open>The \<open>if\<close>/\<open>elif\<close> chain of \<open>process_document\<close>; \<open>text_content\<close> and \<open>images\<close> start
      as the empty string and the empty list.\<close>
  "extract_by_extension l file_bytes fname =
     (let file_extension = file_extension fname in
      if file_extension = ''pdf'' then extract_text_and_images_from_pdf l file_bytes
      else if file_extension = ''docx'' then
        (case extract_text_from_docx l file_bytes of
           Inl e \<Rightarrow> Inl e
         | Inr text_content \<Rightarrow> Inr (text_content, []))
      else if file_extension = ''txt'' then
        (case decode_utf8 l file_bytes of
           Inl e \<Rightarrow> Inl e
         | Inr text_content \<Rightarrow> Inr (text_content, []))
      else Inl (ValueError (''Unsupported file type: '' @ file_extension)))"

definition process_document ::
  "libs \<Rightarrow> 's chroma_client \<Rightarrow> bytes \<Rightarrow> string \<Rightarrow> string \<Rightarrow> 's app_state
     \<Rightarrow> unit outcome \<times> 's app_state" where
  "process_document l client file_bytes fname collection_name st =
     (case extract_by_extension l file_bytes fname of
        Inl e \<Rightarrow> (Inl e, st)
      | Inr (text_content, images) \<Rightarrow>
          if strip text_content = [] \<and> images = [] then
            (Inl (ValueError ''Document is empty or content could not be extracted.''), st)
          else
            (let st1 = (if images \<noteq> [] then
                          st\<lparr>IMAGE_CACHE := (IMAGE_CACHE st)
                               (collection_name \<mapsto>
                                  map (\<lambda>img. optimize_image l img (800, 600)) images)\<rparr>
                        else st)
             in if strip text_content \<noteq> [] then
                  (case split_text l text_content of
                     Inl e \<Rightarrow> (Inl e, st1)
                   | Inr chunks \<Rightarrow>
                       if chunks \<noteq> [] then
                         (case get_or_create_collection client collection_name (chroma st1) of
                            (Inl e, s') \<Rightarrow> (Inl e, st1\<lparr>chroma := s'\<rparr>)
                          | (Inr collection, s') \<Rightarrow>
                              (case store_chunks_in_batches client collection chunks fname
                                      collection_name s' of
                                 (r, s'') \<Rightarrow> (r, st1\<lparr>chroma := s''\<rparr>)))
                       else (Inr (), st1))
                else (Inr (), st1)))"

subsection \<open>extract\_text\_from\_file\<close>

definition extract_text_from_file :: "libs \<Rightarrow> bytes \<Rightarrow> string \<Rightarrow> string outcome" where
  "extract_text_from_file l file_bytes fname =
     (case (let file_extension = file_extension fname in
            if file_extension = ''pdf'' then
              (case extract_text_and_images_from_pdf l file_bytes of
                 Inl e \<Rightarrow> Inl e
               | Inr (text, images) \<Rightarrow> Inr text)
            else if file_extension = ''docx'' then extract_text_from_docx l file_bytes
            else if file_extension = ''txt'' then decode_utf8 l file_bytes
            else decode_utf8 l file_bytes) of
        Inl e \<Rightarrow>
          Inl (Exception (''Failed to extract text from '' @ fname @ '': '' @ str_exn l e))
      | Inr text \<Rightarrow> Inr text)"

subsection \<open>generate\_response\<close>

definition text_context_of :: "string list \<Rightarrow> string" where
  \<comment> \<open>The join of the retrieved chunks and its truncation.\<close>
  "text_context_of relevant_chunks =
     (let text_context = join ([CHR 0x0A, CHR 0x0A] @ ''---'' @ [CHR 0x0A, CHR 0x0A])
                              relevant_chunks;
          max_context_length = 4000
      in if length text_context > max_context_length
         then take max_context_length text_context @ ''...''
         else text_context)"

definition build_text_context :: "query_results option \<Rightarrow> string" where
  \<comment> \<open>\<open>text_context\<close> stays empty unless \<open>results\<close>, \<open>results.get('documents')\<close> and
      \<open>results['documents'][0]\<close> are all truthy.\<close>
  "build_text_context results =
     (case results of
        None \<Rightarrow> []
      | Some r \<Rightarrow>
          (case res_documents r of
             None \<Rightarrow> []
           | Some [] \<Rightarrow> []
           | Some (relevant_chunks # other) \<Rightarrow>
               if relevant_chunks = [] then [] else text_context_of relevant_chunks))"

definition build_prompt :: "string \<Rightarrow> string \<Rightarrow> image list \<Rightarrow> prompt_part list" where
  "build_prompt q text_context images_context =
     [Text (''Question: '' @ q @ [CHR 0x0A, CHR 0x0A]),
      Text ''Please answer the following question based ONLY on the provided context.'',
      Text (''If the information is not available in the text or images, clearly state that you cannot find the answer in the document.'' @ [CHR 0x0A]),
      Text ''--- TEXT CONTEXT ---'',
      Text (if text_context \<noteq> [] then text_context
            else ''No relevant text was found in the document.''),
      Text (''--- END TEXT CONTEXT ---'' @ [CHR 0x0A])]
     @ (if images_context \<noteq> [] then
          Text ([CHR 0x0A] @ ''Additionally, '' @ str_nat (length images_context)
                @ '' images from the document are provided for context:'')
          # map Picture images_context
        else [])
     @ [Text ([CHR 0x0A]
              @ ''Provide a clear, concise answer based on the available context.'')]"

definition no_text_message :: string where
  "no_text_message =
     ''I'' @ [CHR 0x27] @ ''m sorry, I couldn'' @ [CHR 0x27]
     @ ''t generate a response. Please try rephrasing your question.''"

definition error_message :: string where
  "error_message =
     ''I encountered an error while generating the response. Please try again.''"

definition cached_images :: "'s app_state \<Rightarrow> string \<Rightarrow> image list" where
  \<comment> \<open>\<open>IMAGE_CACHE.get(collection_name, [])\<close>\<close>
  "cached_images st cname = (case IMAGE_CACHE st cname of None \<Rightarrow> [] | Some images \<Rightarrow> images)"

definition generate_response_try ::
  "libs \<Rightarrow> 's chroma_client \<Rightarrow> string \<Rightarrow> string \<Rightarrow> 's app_state
     \<Rightarrow> string outcome \<times> 's app_state" where
  \<comment> \<open>The \<open>try\<close> block of \<open>generate_response\<close>.\<close>
  "generate_response_try l client q cname st =
     (case get_or_create_collection client cname (chroma st) of
        (Inl e, s1) \<Rightarrow> (Inl e, st\<lparr>chroma := s1\<rparr>)
      | (Inr collection, s1) \<Rightarrow>
          (case query client collection [q] 5 s1 of
             (Inl e, s2) \<Rightarrow> (Inl e, st\<lparr>chroma := s2\<rparr>)
           | (Inr results, s2) \<Rightarrow>
               (let text_context = build_text_context results;
                    images_context = cached_images st cname;
                    prompt_parts = build_prompt q text_context images_context
                in (case generate_content l prompt_parts of
                      Inl e \<Rightarrow> (Inl e, st\<lparr>chroma := s2\<rparr>)
                    | Inr response \<Rightarrow>
                        (case response_text response of
                           Inl e \<Rightarrow> (Inl e, st\<lparr>chroma := s2\<rparr>)
                         | Inr None \<Rightarrow> (Inr no_text_message, st\<lparr>chroma := s2\<rparr>)
                         | Inr (Some text) \<Rightarrow>
                             if text \<noteq> [] then (Inr text, st\<lparr>chroma := s2\<rparr>)
                             else (Inr no_text_message, st\<lparr>chroma := s2\<rparr>))))))"

definition generate_response ::
  "libs \<Rightarrow> 's chroma_client \<Rightarrow> string \<Rightarrow> string \<Rightarrow> 's app_state
     \<Rightarrow> string \<times> 's app_state" where
  \<comment> \<open>The \<open>except Exception\<close> handler turns every raise of the block into the fixed
      message.\<close>
  "generate_response l client q cname st =
     (case generate_response_try l client q cname st of
        (Inr text, st') \<Rightarrow> (text, st')
      | (Inl e, st') \<Rightarrow> (error_message, st'))"

subsection \<open>The cache operations\<close>

definition clear_collection_cache :: "string \<Rightarrow> 's app_state \<Rightarrow> 's app_state" where
  "clear_collection_cache cname st =
     (if cname \<in> dom (IMAGE_CACHE st)
      then st\<lparr>IMAGE_CACHE := (IMAGE_CACHE st)(cname := None)\<rparr>
      else st)"

definition clear_all_cache :: "'s app_state \<Rightarrow> 's app_state" where
  "clear_all_cache st = st\<lparr>IMAGE_CACHE := Map.empty\<rparr>"

section \<open>main.py: the endpoints\<close>

record upload_file =
  upload_filename :: string
  upload_read :: "bytes outcome"

record upload_response =
  resp_message :: string
  resp_task_id :: string
  resp_collection_name :: string

definition upload_document ::
  "libs \<Rightarrow> upload_file \<Rightarrow> string \<Rightarrow> string \<Rightarrow> 's app_state
     \<Rightarrow> upload_response outcome \<times> 's app_state" where
  \<comment> \<open>\<open>task_uuid\<close> and \<open>name_uuid_hex\<close> are the two values \<open>uuid.uuid4()\<close> yields. Every
      exception of the \<open>try\<close> block, the size-limit one included, reaches the handler
      \<open>except Exception\<close>, which raises a new exception with status 500.\<close>
  "upload_document l file task_uuid name_uuid_hex st =
     (case (let max_size = 50 * 1024 * 1024 in
            case upload_read file of
              Inl e \<Rightarrow> (Inl e, st)
            | Inr file_bytes \<Rightarrow>
                if length file_bytes > max_size then
                  (Inl (HTTPException 413 ''File too large. Maximum size is 50MB.''), st)
                else
                  (let task_id = task_uuid;
                       cname = ''doc_'' @ take 8 name_uuid_hex
                   in (Inr \<lparr>resp_message = ''File '' @ [CHR 0x27] @ upload_filename file
                                             @ [CHR 0x27] @ '' upload started.'',
                             resp_task_id = task_id,
                             resp_collection_name = cname\<rparr>,
                       st\<lparr>background_tasks := background_tasks st
                            @ [(file_bytes, upload_filename file, cname, task_id)]\<rparr>))) of
        (Inr resp, st') \<Rightarrow> (Inr resp, st')
      | (Inl e, st') \<Rightarrow> (Inl (HTTPException 500 (str_exn l e)), st'))"

definition delete_collection ::
  "libs \<Rightarrow> 's chroma_client \<Rightarrow> string \<Rightarrow> 's app_state \<Rightarrow> string outcome \<times> 's app_state" where
  "delete_collection l client cname st =
     (case chroma_delete_collection client cname (chroma st) of
        (Inr u, s') \<Rightarrow>
          (Inr (''Collection '' @ [CHR 0x27] @ cname @ [CHR 0x27] @ '' deleted successfully''),
           st\<lparr>chroma := s'\<rparr>)
      | (Inl e, s') \<Rightarrow> (Inl (HTTPException 500 (str_exn l e)), st\<lparr>chroma := s'\<rparr>))"

section \<open>Sample collaborators for concrete runs\<close>

definition ascii_decode :: "bytes \<Rightarrow> string outcome" where
  \<comment> \<open>UTF-8 decoding restricted to inputs of ASCII bytes, where both agree.\<close>
  "ascii_decode bs =
     (if list_all (\<lambda>b. b < 128) bs then Inr (map char_of bs)
      else Inl (LibraryError ''invalid start byte''))"

definition sample_image :: image where
  "sample_image = \<lparr>img_size = (1600, 1200), img_mode = ''CMYK'', img_data = [1, 2, 3]\<rparr>"

definition sample_icon :: image where
  "sample_icon = \<lparr>img_size = (16, 16), img_mode = ''RGB'', img_data = [4]\<rparr>"

definition sample_libs :: libs where
  \<comment> \<open>Every PDF has one readable page with a large image, an icon and an undecodable
      image, and one unreadable page; resizing clips to the bound.\<close>
  "sample_libs =
     \<lparr>fitz_open =
        (\<lambda>file_bytes.
           Inr [\<lparr>page_get_text = Inr ''The sky is blue.'',
                 page_get_images = Inr [Inr sample_image, Inr sample_icon,
                                        Inl (LibraryError ''cannot identify image file'')]\<rparr>,
                \<lparr>page_get_text = Inl (LibraryError ''bad page''),
                 page_get_images = Inr []\<rparr>]),
      docx_paragraphs = (\<lambda>file_bytes. Inr [''first'', ''second'']),
      decode_utf8 = ascii_decode,
      split_text = (\<lambda>text. Inr [text]),
      thumbnail =
        (\<lambda>max_size img.
           (Inr (), img\<lparr>img_size := (min (fst (img_size img)) (fst max_size),
                                       min (snd (img_size img)) (snd max_size))\<rparr>)),
      convert = (\<lambda>m img. Inr (img\<lparr>img_mode := m\<rparr>)),
      generate_content = (\<lambda>prompt_parts. Inr \<lparr>response_text = Inr None\<rparr>),
      http_exception_str = (\<lambda>status_code detail. detail)\<rparr>"

definition truncated_libs :: libs where
  \<comment> \<open>The image data cannot be loaded: \<open>thumbnail\<close> has already halved the size of the
      image (the decoder's draft mode) when loading raises, and \<open>convert\<close> raises.\<close>
  "truncated_libs =
     sample_libs\<lparr>thumbnail :=
                   (\<lambda>max_size img.
                      (Inl (LibraryError ''image file is truncated''),
                       img\<lparr>img_size := (fst (img_size img) div 2,
                                          snd (img_size img) div 2)\<rparr>)),
                 convert := (\<lambda>m img. Inl (LibraryError ''image file is truncated''))\<rparr>"

definition empty_state :: "unit app_state" where
  "empty_state = \<lparr>IMAGE_CACHE = Map.empty, chroma = (), background_tasks = []\<rparr>"

definition cached_state :: "unit app_state" where
  \<comment> \<open>Collection \<open>c\<close> has been ingested before and has one cached image.\<close>
  "cached_state =
     \<lparr>IMAGE_CACHE = [''c'' \<mapsto> [sample_icon]], chroma = (), background_tasks = []\<rparr>"

definition sample_client :: "unit chroma_client" where
  "sample_client =
     \<lparr>client_get_or_create_collection = (\<lambda>name s. (Inr name, s)),
      collection_add = (\<lambda>collection call s. (Inr (), s)),
      collection_query =
        (\<lambda>collection query_texts n_results s.
           (Inr (Some \<lparr>res_documents = Some [[''The sky is blue.'']]\<rparr>), s)),
      client_list_collections = (\<lambda>s. (Inr [], s)),
      client_delete_collection = (\<lambda>name s. (Inr (), s))\<rparr>"

definition failing_client :: "unit chroma_client" where
  "failing_client =
     \<lparr>client_get_or_create_collection =
        (\<lambda>name s. (Inl (LibraryError ''database is locked''), s)),
      collection_add = (\<lambda>collection call s. (Inl (LibraryError ''database is locked''), s)),
      collection_query =
        (\<lambda>collection query_texts n_results s.
           (Inl (LibraryError ''database is locked''), s)),
      client_list_collections = (\<lambda>s. (Inl (LibraryError ''database is locked''), s)),
      client_delete_collection = (\<lambda>name s. (Inl (LibraryError ''database is locked''), s))\<rparr>"

section \<open>Batched storage: what the store receives\<close>

lemma zip3_upt:
  "zip xs (zip (map f [0..<length xs]) (map g [0..<length xs]))
     = map (\<lambda>j. (xs ! j, f j, g j)) [0..<length xs]"
  by (rule nth_equalityI) auto





lemma store_loop_step:
  assumes "i < length chunks"
  shows "store_loop client collection chunks fname cn i st =
     (let b = take (min (i + 100) (length chunks) - i) (drop i chunks) in
      case add_documents client collection b
             (map (\<lambda>j. \<lparr>meta_filename = fname, meta_chunk_index = i + j,
                          meta_total_chunks = length chunks, meta_batch_id = i div 100\<rparr>)
                [0..<length b])
             (map (\<lambda>j. cn @ ''_'' @ str_nat (i + j)) [0..<length b]) st of
        (Inl e, st') \<Rightarrow> (Inl e, st')
      | (Inr u, st') \<Rightarrow> store_loop client collection chunks fname cn (i + 100) st')"
  using assms by (subst store_loop.simps) (simp add: Let_def)

lemma store_loop_done:
  assumes "\<not> i < length chunks"
  shows "store_loop client collection chunks fname cn i st = (Inr (), st)"
  using assms by (subst store_loop.simps) simp










lemma add_documents_accepting:
  assumes "\<And>c call st. fst (collection_add client c call st) = Inr ()"
  shows "\<exists>s'. add_documents client collection d m i s = (Inr (), s')"
proof -
  obtain r s' where c: "collection_add client collection
                          \<lparr>documents = d, metadatas = m, ids = i\<rparr> s = (r, s')"
    by (cases "collection_add client collection \<lparr>documents = d, metadatas = m, ids = i\<rparr> s")
  with assms[of collection "\<lparr>documents = d, metadatas = m, ids = i\<rparr>" s] have "r = Inr ()"
    by simp
  with c show ?thesis by (simp add: add_documents_def)
qed

lemma store_loop_accepting:
  assumes "\<And>c call st. fst (collection_add client c call st) = Inr ()"
  shows "fst (store_loop client collection chunks fname cn i s) = Inr ()"
proof (induction "length chunks - i" arbitrary: i s rule: less_induct)
  case less
  show ?case
  proof (cases "i < length chunks")
    case False
    then show ?thesis by (simp add: store_loop_done)
  next
    case True
    let ?b = "take (min (i + 100) (length chunks) - i) (drop i chunks)"
    let ?m = "map (\<lambda>j. \<lparr>meta_filename = fname, meta_chunk_index = i + j,
                          meta_total_chunks = length chunks, meta_batch_id = i div 100\<rparr>)
                [0..<length ?b]"
    let ?i = "map (\<lambda>j. cn @ ''_'' @ str_nat (i + j)) [0..<length ?b]"
    from add_documents_accepting[OF assms, of collection ?b ?m ?i s]
    obtain s' where add: "add_documents client collection ?b ?m ?i s = (Inr (), s')" by blast
    have "store_loop client collection chunks fname cn i s
            = store_loop client collection chunks fname cn (i + 100) s'"
      unfolding store_loop_step[OF True, of client collection fname cn s] Let_def add
      by simp
    moreover have "length chunks - (i + 100) < length chunks - i" using True by simp
    ultimately show ?thesis using less.hyps by simp
  qed
qed


lemma sample_client_accepting: "fst (collection_add sample_client c call st) = Inr ()"
  by (simp add: sample_client_def)












section \<open>Dispatch on the file extension\<close>

lemma split_on_nonempty: "split_on sep s \<noteq> []"
  by (induction s) (auto split: list.splits)

lemma split_on_no_sep: "sep \<notin> set s \<Longrightarrow> split_on sep s = [s]"
  by (induction s) auto

lemma split_on_parts: "w \<in> set (split_on sep s) \<Longrightarrow> sep \<notin> set w"
proof (induction s arbitrary: w)
  case Nil
  then show ?case by simp
next
  case (Cons c cs)
  obtain v vs where sp: "split_on sep cs = v # vs"
    using split_on_nonempty[of sep cs] by (cases "split_on sep cs") auto
  show ?case
  proof (cases "c = sep")
    case True
    with Cons.prems have "w = [] \<or> w \<in> set (split_on sep cs)" by simp
    with Cons.IH show ?thesis by auto
  next
    case False
    with Cons.prems sp have "w = c # v \<or> w \<in> set vs" by simp
    moreover have "sep \<notin> set v" using Cons.IH[of v] sp by simp
    moreover have "w \<in> set vs \<Longrightarrow> sep \<notin> set w" using Cons.IH[of w] sp by simp
    ultimately show ?thesis using False by auto
  qed
qed

lemma split_on_join: "join [sep] (split_on sep s) = s"
proof (induction s)
  case Nil
  then show ?case by simp
next
  case (Cons c cs)
  obtain v vs where sp: "split_on sep cs = v # vs"
    using split_on_nonempty[of sep cs] by (cases "split_on sep cs") auto
  show ?case
  proof (cases "c = sep")
    case True
    with Cons sp show ?thesis by simp
  next
    case False
    with Cons sp show ?thesis by (cases vs) auto
  qed
qed

lemma join_snoc: "xs \<noteq> [] \<Longrightarrow> join sep (xs @ [l]) = join sep xs @ sep @ l"
proof (induction sep xs rule: join.induct)
  case (1 sep)
  then show ?case by simp
next
  case (2 sep x)
  then show ?case by simp
next
  case (3 sep x y ys)
  then show ?case by simp
qed

lemma last_split_on:
  "sep \<notin> set (last (split_on sep s))
   \<and> (sep \<in> set s \<longrightarrow> (\<exists>p. s = p @ sep # last (split_on sep s)))
   \<and> (sep \<notin> set s \<longrightarrow> last (split_on sep s) = s)"
proof -
  let ?l = "last (split_on sep s)"
  have ne: "split_on sep s \<noteq> []" by (rule split_on_nonempty)
  then have mem: "?l \<in> set (split_on sep s)" by simp
  then have a: "sep \<notin> set ?l" by (rule split_on_parts)
  have c: "sep \<notin> set s \<longrightarrow> ?l = s" by (simp add: split_on_no_sep)
  have b: "sep \<in> set s \<longrightarrow> (\<exists>p. s = p @ sep # ?l)"
  proof
    assume in_s: "sep \<in> set s"
    from ne have sp: "split_on sep s = butlast (split_on sep s) @ [?l]" by simp
    show "\<exists>p. s = p @ sep # ?l"
    proof (cases "butlast (split_on sep s) = []")
      case True
      with sp have "split_on sep s = [?l]" by simp
      then have "join [sep] [?l] = s" using split_on_join[of sep s] by simp
      then have "?l = s" by simp
      with a in_s show ?thesis by simp
    next
      case False
      from join_snoc[OF False, of "[sep]" ?l] sp split_on_join[of sep s]
      have "s = join [sep] (butlast (split_on sep s)) @ [sep] @ ?l" by simp
      then show ?thesis by auto
    qed
  qed
  from a b c show ?thesis by blast
qed

lemma lower_char_dot: "lower_char c = CHR ''.'' \<longleftrightarrow> c = CHR ''.''"
proof
  assume a: "lower_char c = CHR ''.''"
  show "c = CHR ''.''"
  proof (rule ccontr)
    assume n: "c \<noteq> CHR ''.''"
    with a have up: "(65 \<le> (of_char c :: nat) \<and> (of_char c :: nat) \<le> 90)
        \<or> (192 \<le> (of_char c :: nat) \<and> (of_char c :: nat) \<le> 222 \<and> (of_char c :: nat) \<noteq> 215)"
      and eq: "(char_of ((of_char c :: nat) + 32) :: char) = CHR ''.''"
      by (auto simp: lower_char_def Let_def split: if_splits)
    from eq have "(of_char (char_of ((of_char c :: nat) + 32) :: char) :: nat) = of_char CHR ''.''"
      by simp
    then have "((of_char c :: nat) + 32) mod 256 = 46" by simp
    with up show False by auto
  qed
next
  assume "c = CHR ''.''"
  then show "lower_char c = CHR ''.''" by (simp add: lower_char_def)
qed

lemma lower_dot: "CHR ''.'' \<in> set (lower s) \<longleftrightarrow> CHR ''.'' \<in> set s"
proof -
  have "CHR ''.'' \<in> set (lower s) \<longleftrightarrow> (\<exists>x \<in> set s. CHR ''.'' = lower_char x)"
    unfolding lower_def set_map image_iff by (rule refl)
  then show ?thesis by (metis lower_char_dot)
qed


lemma file_extension_no_dot:
  "CHR ''.'' \<notin> set fname \<Longrightarrow> file_extension fname = lower fname"
  by (simp add: file_extension_def last_split_on lower_dot)


text \<open>
  C10. The extension used for dispatch is what follows the last \<open>.\<close> of the lowercased
  filename, and the dispatch of \<open>process_document\<close> compares that extension with pdf,
  docx and txt. For every filename without any \<open>.\<close> the extension is the whole lowercased
  filename, so the dispatch is on the lowercased filename itself: a file named exactly
  \<open>pdf\<close> (in any letter case) goes to the PDF extraction, one named exactly \<open>txt\<close> is
  decoded as UTF-8, and any other dot-less name is rejected with its whole lowercased
  name reported as the unsupported type.
\<close>

theorem extension_without_dot:
  "CHR ''.'' \<notin> set (file_extension fname)
   \<and> (CHR ''.'' \<in> set fname \<longrightarrow> (\<exists>p. lower fname = p @ CHR ''.'' # file_extension fname))
   \<and> (CHR ''.'' \<notin> set fname \<longrightarrow>
         file_extension fname = lower fname
         \<and> extract_by_extension l file_bytes fname
             = (if lower fname = ''pdf'' then extract_text_and_images_from_pdf l file_bytes
                else if lower fname = ''docx'' then
                  (case extract_text_from_docx l file_bytes of
                     Inl e \<Rightarrow> Inl e
                   | Inr text_content \<Rightarrow> Inr (text_content, []))
                else if lower fname = ''txt'' then
                  (case decode_utf8 l file_bytes of
                     Inl e \<Rightarrow> Inl e
                   | Inr text_content \<Rightarrow> Inr (text_content, []))
                else Inl (ValueError (''Unsupported file type: '' @ lower fname)))
         \<and> (lower fname \<notin> {''pdf'', ''docx'', ''txt''} \<longrightarrow>
               process_document l client file_bytes fname cname st
                 = (Inl (ValueError (''Unsupported file type: '' @ lower fname)), st)))
   \<and> extract_by_extension l file_bytes fname
       = (if file_extension fname = ''pdf'' then extract_text_and_images_from_pdf l file_bytes
          else if file_extension fname = ''docx'' then
            (case extract_text_from_docx l file_bytes of
               Inl e \<Rightarrow> Inl e
             | Inr text_content \<Rightarrow> Inr (text_content, []))
          else if file_extension fname = ''txt'' then
            (case decode_utf8 l file_bytes of
               Inl e \<Rightarrow> Inl e
             | Inr text_content \<Rightarrow> Inr (text_content, []))
          else Inl (ValueError (''Unsupported file type: '' @ file_extension fname)))
   \<and> extract_by_extension l file_bytes ''pdf'' = extract_text_and_images_from_pdf l file_bytes
   \<and> extract_by_extension l file_bytes ''txt''
       = (case decode_utf8 l file_bytes of
            Inl e \<Rightarrow> Inl e
          | Inr text_content \<Rightarrow> Inr (text_content, []))"
proof -
  have a: "file_extension ''pdf'' = ''pdf''" "file_extension ''txt'' = ''txt''" by code_simp+
  have ls: "CHR ''.'' \<notin> set (file_extension fname)"
    "CHR ''.'' \<in> set fname \<longrightarrow> (\<exists>p. lower fname = p @ CHR ''.'' # file_extension fname)"
    "CHR ''.'' \<notin> set fname \<longrightarrow> file_extension fname = lower fname"
    using last_split_on[of "CHR ''.''" "lower fname"]
    by (simp_all add: file_extension_def[symmetric] lower_dot)
  have gen: "extract_by_extension l file_bytes fname
       = (if file_extension fname = ''pdf'' then extract_text_and_images_from_pdf l file_bytes
          else if file_extension fname = ''docx'' then
            (case extract_text_from_docx l file_bytes of
               Inl e \<Rightarrow> Inl e
             | Inr text_content \<Rightarrow> Inr (text_content, []))
          else if file_extension fname = ''txt'' then
            (case decode_utf8 l file_bytes of
               Inl e \<Rightarrow> Inl e
             | Inr text_content \<Rightarrow> Inr (text_content, []))
          else Inl (ValueError (''Unsupported file type: '' @ file_extension fname)))"
    by (simp add: extract_by_extension_def)
  have lit: "extract_by_extension l file_bytes ''pdf'' = extract_text_and_images_from_pdf l file_bytes"
    "extract_by_extension l file_bytes ''txt''
       = (case decode_utf8 l file_bytes of
            Inl e \<Rightarrow> Inl e
          | Inr text_content \<Rightarrow> Inr (text_content, []))"
    by (simp_all add: extract_by_extension_def a)
  have nodot: "CHR ''.'' \<notin> set fname \<longrightarrow>
         file_extension fname = lower fname
         \<and> extract_by_extension l file_bytes fname
             = (if lower fname = ''pdf'' then extract_text_and_images_from_pdf l file_bytes
                else if lower fname = ''docx'' then
                  (case extract_text_from_docx l file_bytes of
                     Inl e \<Rightarrow> Inl e
                   | Inr text_content \<Rightarrow> Inr (text_content, []))
                else if lower fname = ''txt'' then
                  (case decode_utf8 l file_bytes of
                     Inl e \<Rightarrow> Inl e
                   | Inr text_content \<Rightarrow> Inr (text_content, []))
                else Inl (ValueError (''Unsupported file type: '' @ lower fname)))
         \<and> (lower fname \<notin> {''pdf'', ''docx'', ''txt''} \<longrightarrow>
               process_document l client file_bytes fname cname st
                 = (Inl (ValueError (''Unsupported file type: '' @ lower fname)), st))"
  proof
    assume "CHR ''.'' \<notin> set fname"
    with ls(3) have e: "file_extension fname = lower fname" by simp
    show "file_extension fname = lower fname
         \<and> extract_by_extension l file_bytes fname
             = (if lower fname = ''pdf'' then extract_text_and_images_from_pdf l file_bytes
                else if lower fname = ''docx'' then
                  (case extract_text_from_docx l file_bytes of
                     Inl e \<Rightarrow> Inl e
                   | Inr text_content \<Rightarrow> Inr (text_content, []))
                else if lower fname = ''txt'' then
                  (case decode_utf8 l file_bytes of
                     Inl e \<Rightarrow> Inl e
                   | Inr text_content \<Rightarrow> Inr (text_content, []))
                else Inl (ValueError (''Unsupported file type: '' @ lower fname)))
         \<and> (lower fname \<notin> {''pdf'', ''docx'', ''txt''} \<longrightarrow>
               process_document l client file_bytes fname cname st
                 = (Inl (ValueError (''Unsupported file type: '' @ lower fname)), st))"
      using gen by (simp add: e process_document_def)
  qed
  from ls(1,2) nodot gen lit show ?thesis by blast
qed

theorem extension_without_dot_witness:
  "CHR ''.'' \<notin> set ''PDF''
   \<and> extract_by_extension sample_libs [37, 80, 68, 70] ''PDF''
       = extract_text_and_images_from_pdf sample_libs [37, 80, 68, 70]
   \<and> CHR ''.'' \<notin> set ''README'' \<and> file_extension ''README'' = ''readme''
   \<and> process_document sample_libs sample_client [104, 105] ''README'' ''c'' empty_state
       = (Inl (ValueError ''Unsupported file type: readme''), empty_state)
   \<and> CHR ''.'' \<in> set ''Report.v2.PDF'' \<and> file_extension ''Report.v2.PDF'' = ''pdf''"
proof -
  have n1: "CHR ''.'' \<notin> set ''PDF''" and n2: "CHR ''.'' \<notin> set ''README''" by simp_all
  have l1: "lower ''PDF'' = ''pdf''" and l2: "lower ''README'' = ''readme''" by code_simp+
  have e: "file_extension ''Report.v2.PDF'' = ''pdf''" by code_simp
  from extension_without_dot[of "''PDF''" sample_libs "[37, 80, 68, 70]"] n1 l1
  have a: "extract_by_extension sample_libs [37, 80, 68, 70] ''PDF''
             = extract_text_and_images_from_pdf sample_libs [37, 80, 68, 70]"
    by simp
  from extension_without_dot[of "''README''" sample_libs "[104, 105]" sample_client "''c''"
                               empty_state] n2 l2
  have b: "file_extension ''README'' = ''readme''
           \<and> process_document sample_libs sample_client [104, 105] ''README'' ''c'' empty_state
               = (Inl (ValueError ''Unsupported file type: readme''), empty_state)"
    by simp
  from a b e show ?thesis by simp
qed

text \<open>
  C3, as stated, fails for \<open>extract_text_from_file\<close>: the file \<open>notes.md\<close> has the
  extension \<open>md\<close>, which is none of pdf, docx, txt, and its bytes are decoded as UTF-8
  and returned.
\<close>

theorem extract_text_from_file_counterexample:
  "file_extension ''notes.md'' = ''md'' \<and> ''md'' \<notin> {''pdf'', ''docx'', ''txt''}
   \<and> extract_text_from_file sample_libs [104, 105] ''notes.md'' = Inr ''hi''"
proof -
  have "file_extension ''notes.md'' = ''md''" by code_simp
  moreover have "extract_text_from_file sample_libs [104, 105] ''notes.md'' = Inr ''hi''"
    by code_simp
  ultimately show ?thesis by simp
qed

text \<open>
  C3, amended. Extraction dispatches on the lowercase extension suffix of the filename.
  Whenever that suffix is not one of pdf, docx, txt, the ingestion operation
  \<open>process_document\<close> fails with the unsupported-file-type error and leaves the state as
  it was, while \<open>extract_text_from_file\<close> falls back to decoding the bytes as UTF-8 and
  fails only when that decoding fails.
\<close>

theorem unsupported_extension:
  assumes "file_extension fname \<notin> {''pdf'', ''docx'', ''txt''}"
  shows "process_document l client file_bytes fname cname st
           = (Inl (ValueError (''Unsupported file type: '' @ file_extension fname)), st)
         \<and> extract_text_from_file l file_bytes fname
           = (case decode_utf8 l file_bytes of
                Inl e \<Rightarrow> Inl (Exception (''Failed to extract text from '' @ fname @ '': ''
                                          @ str_exn l e))
              | Inr text \<Rightarrow> Inr text)"
  using assms
  by (simp add: process_document_def extract_by_extension_def extract_text_from_file_def)

theorem unsupported_extension_witness:
  "process_document sample_libs sample_client [104, 105] ''notes.md'' ''c'' empty_state
     = (Inl (ValueError ''Unsupported file type: md''), empty_state)
   \<and> extract_text_from_file sample_libs [104, 105] ''notes.md'' = Inr ''hi''"
proof -
  have e: "file_extension ''notes.md'' = ''md''" by code_simp
  then have h: "file_extension ''notes.md'' \<notin> {''pdf'', ''docx'', ''txt''}" by simp
  have d: "decode_utf8 sample_libs [104, 105] = Inr ''hi''" by code_simp
  from unsupported_extension[OF h, of sample_libs sample_client "[104, 105]" "''c''" empty_state]
  show ?thesis by (simp add: e d)
qed

section \<open>The answer operation\<close>

lemma text_context_of_bound: "length (text_context_of relevant_chunks) \<le> 4000 + length ''...''"
  by (simp add: text_context_of_def Let_def)

text \<open>
  C5. The text context assembled by \<open>generate_response\<close> from the retrieved chunks (joined
  by the visible separator and cut to 4000 characters plus the marker \<open>...\<close> when longer)
  never exceeds 4000 characters plus the length of the marker, and is the untruncated
  join whenever that join has at most 4000 characters.
\<close>

theorem text_context_bounded:
  "length (build_text_context results) \<le> 4000 + length ''...''
   \<and> (length (join ([CHR 0x0A, CHR 0x0A] @ ''---'' @ [CHR 0x0A, CHR 0x0A]) relevant_chunks)
         \<le> 4000
       \<longrightarrow> build_text_context (Some \<lparr>res_documents = Some (relevant_chunks # other)\<rparr>)
           = join ([CHR 0x0A, CHR 0x0A] @ ''---'' @ [CHR 0x0A, CHR 0x0A]) relevant_chunks)"
proof -
  have "length (build_text_context results) \<le> 4000 + length ''...''"
    using text_context_of_bound
    by (auto simp: build_text_context_def split: option.splits list.splits)
  moreover have "join ([CHR 0x0A, CHR 0x0A] @ ''---'' @ [CHR 0x0A, CHR 0x0A]) [] = ([] :: string)"
    by simp
  ultimately show ?thesis
    by (auto simp: build_text_context_def text_context_of_def Let_def)
qed

theorem text_context_bounded_witness:
  "build_text_context (Some \<lparr>res_documents = Some [[''The sky is blue.'', ''Grass is green.'']]\<rparr>)
     = ''The sky is blue.'' @ [CHR 0x0A, CHR 0x0A] @ ''---'' @ [CHR 0x0A, CHR 0x0A]
       @ ''Grass is green.''"
  using text_context_bounded[of "None" "[''The sky is blue.'', ''Grass is green.'']" "[]"]
  by simp

lemma error_message_phrase: "sublist ''encountered an error'' error_message"
  unfolding sublist_def error_message_def
  by (rule exI[of _ "''I ''"], rule exI[of _ "'' while generating the response. Please try again.''"]) simp

lemma no_text_message_phrase: "sublist (''couldn'' @ [CHR 0x27] @ ''t generate a response'') no_text_message"
  unfolding sublist_def no_text_message_def
  by (rule exI[of _ "''I'' @ [CHR 0x27] @ ''m sorry, I ''"],
      rule exI[of _ "''. Please try rephrasing your question.''"]) simp

text \<open>
  C4. \<open>generate_response\<close> always returns a string: an exception raised while getting the
  collection, querying it, calling the generation model or reading the text of its
  response yields the fixed message that contains \<open>encountered an error\<close>; a response
  with no text (\<open>None\<close> or the empty string) yields the fixed message that contains
  \<open>couldn't generate a response\<close>; otherwise the model's text is returned. The exceptions
  modelled are those of class \<open>Exception\<close>, which the handler catches.
\<close>

theorem generate_response_never_raises:
  "(\<forall>e s1. get_or_create_collection client cname (chroma st) = (Inl e, s1)
       \<longrightarrow> fst (generate_response l client q cname st) = error_message)
   \<and> (\<forall>collection s1 e s2.
         get_or_create_collection client cname (chroma st) = (Inr collection, s1)
         \<and> query client collection [q] 5 s1 = (Inl e, s2)
       \<longrightarrow> fst (generate_response l client q cname st) = error_message)
   \<and> (\<forall>collection s1 results s2 e.
         get_or_create_collection client cname (chroma st) = (Inr collection, s1)
         \<and> query client collection [q] 5 s1 = (Inr results, s2)
         \<and> generate_content l (build_prompt q (build_text_context results)
                                  (cached_images st cname)) = Inl e
       \<longrightarrow> fst (generate_response l client q cname st) = error_message)
   \<and> (\<forall>collection s1 results s2 response.
         get_or_create_collection client cname (chroma st) = (Inr collection, s1)
         \<and> query client collection [q] 5 s1 = (Inr results, s2)
         \<and> generate_content l (build_prompt q (build_text_context results)
                                  (cached_images st cname)) = Inr response
       \<longrightarrow> fst (generate_response l client q cname st)
           = (case response_text response of
                Inl e \<Rightarrow> error_message
              | Inr None \<Rightarrow> no_text_message
              | Inr (Some text) \<Rightarrow> if text = [] then no_text_message else text))
   \<and> sublist ''encountered an error'' error_message
   \<and> sublist (''couldn'' @ [CHR 0x27] @ ''t generate a response'') no_text_message"
  using error_message_phrase no_text_message_phrase
  by (auto simp: generate_response_def generate_response_try_def Let_def
           split: sum.splits option.splits)

theorem generate_response_never_raises_witness:
  "fst (generate_response sample_libs failing_client ''What color is the sky?'' ''c'' empty_state)
     = error_message
   \<and> fst (generate_response sample_libs sample_client ''What color is the sky?'' ''c'' empty_state)
     = no_text_message"
proof -
  have a: "get_or_create_collection failing_client ''c'' (chroma empty_state)
             = (Inl (LibraryError ''database is locked''), ())"
    by (simp add: get_or_create_collection_def failing_client_def)
  have b: "get_or_create_collection sample_client ''c'' (chroma empty_state) = (Inr ''c'', ())"
    by (simp add: get_or_create_collection_def sample_client_def)
  have c: "query sample_client ''c'' [''What color is the sky?''] 5 ()
             = (Inr (Some \<lparr>res_documents = Some [[''The sky is blue.'']]\<rparr>), ())"
    by (simp add: query_def sample_client_def)
  have d: "generate_content sample_libs
             (build_prompt ''What color is the sky?''
                (build_text_context (Some \<lparr>res_documents = Some [[''The sky is blue.'']]\<rparr>))
                (cached_images empty_state ''c''))
             = Inr \<lparr>response_text = Inr None\<rparr>"
    by (simp add: sample_libs_def)
  from generate_response_never_raises
         [of failing_client "''c''" empty_state sample_libs "''What color is the sky?''"] a
  have "fst (generate_response sample_libs failing_client ''What color is the sky?'' ''c''
               empty_state) = error_message"
    by blast
  moreover
  from generate_response_never_raises
         [of sample_client "''c''" empty_state sample_libs "''What color is the sky?''"] b c d
  have "fst (generate_response sample_libs sample_client ''What color is the sky?'' ''c''
               empty_state)
          = (case response_text \<lparr>response_text = Inr None\<rparr> of
                Inl e \<Rightarrow> error_message
              | Inr None \<Rightarrow> no_text_message
              | Inr (Some text) \<Rightarrow> if text = [] then no_text_message else text)"
    by blast
  ultimately show ?thesis by simp
qed

section \<open>The image optimizer\<close>

text \<open>
  C6, as stated, fails on the failure path: when the image data cannot be loaded, the
  resize step raises after it has halved the CMYK image in place, and the handler returns
  that image: in a mode that is neither RGB nor L, and not the original unmodified.
\<close>

theorem optimize_image_counterexample:
  "img_mode (optimize_image truncated_libs sample_image (800, 600)) = ''CMYK''
   \<and> ''CMYK'' \<notin> {''RGB'', ''L''}
   \<and> optimize_image truncated_libs sample_image (800, 600) \<noteq> sample_image"
  by (simp add: optimize_image_def truncated_libs_def sample_libs_def sample_image_def)

text \<open>
  C6, amended. Provided the library's \<open>thumbnail\<close> never leaves the image larger than it
  found it, whether it returns or raises, and its \<open>convert\<close> keeps the size and yields the
  requested mode, the image returned by \<open>_optimize_image\<close> is on every path at most as wide
  and as high as the original. Its mode is RGB or L whenever no image operation performed
  in the run raises. When the resize step raises, the image is returned as that step left
  it; when the conversion raises, the image is returned as the resize step (if any) left
  it; in both cases in whatever mode it has.
\<close>

theorem optimize_image_bounds:
  assumes th: "\<And>sz i r i'. thumbnail l sz i = (r, i')
                 \<Longrightarrow> fst (img_size i') \<le> fst (img_size i) \<and> snd (img_size i') \<le> snd (img_size i)"
    and cv: "\<And>m i i'. convert l m i = Inr i' \<Longrightarrow> img_size i' = img_size i \<and> img_mode i' = m"
  shows "fst (img_size (optimize_image l img max_size)) \<le> fst (img_size img)
         \<and> snd (img_size (optimize_image l img max_size)) \<le> snd (img_size img)
         \<and> (\<forall>img1.
               (if fst (img_size img) > fst max_size \<or> snd (img_size img) > snd max_size
                then thumbnail l max_size img else (Inr (), img)) = (Inr (), img1)
               \<and> (img_mode img1 \<in> {''RGB'', ''L''} \<or> (\<exists>img2. convert l ''RGB'' img1 = Inr img2))
             \<longrightarrow> img_mode (optimize_image l img max_size) \<in> {''RGB'', ''L''})
         \<and> (\<forall>e img1.
               (fst (img_size img) > fst max_size \<or> snd (img_size img) > snd max_size)
               \<and> thumbnail l max_size img = (Inl e, img1)
             \<longrightarrow> optimize_image l img max_size = img1)
         \<and> (\<forall>e img1.
               (if fst (img_size img) > fst max_size \<or> snd (img_size img) > snd max_size
                then thumbnail l max_size img else (Inr (), img)) = (Inr (), img1)
               \<and> img_mode img1 \<notin> {''RGB'', ''L''} \<and> convert l ''RGB'' img1 = Inl e
             \<longrightarrow> optimize_image l img max_size = img1)"
proof -
  let ?step = "if fst (img_size img) > fst max_size \<or> snd (img_size img) > snd max_size
               then thumbnail l max_size img else (Inr (), img)"
  obtain r img1 where step: "?step = (r, img1)" by (cases ?step)
  have s1: "fst (img_size img1) \<le> fst (img_size img) \<and> snd (img_size img1) \<le> snd (img_size img)"
    using step th[of max_size img r img1] by (auto split: if_splits)
  show ?thesis
  proof (cases r)
    case (Inl e)
    with step have "optimize_image l img max_size = img1" by (simp add: optimize_image_def)
    with Inl step s1 show ?thesis by (auto split: if_splits)
  next
    case (Inr u)
    show ?thesis
    proof (cases "img_mode img1 \<in> {''RGB'', ''L''}")
      case True
      with Inr step have "optimize_image l img max_size = img1"
        by (auto simp: optimize_image_def)
      with s1 True Inr step show ?thesis by (auto split: if_splits)
    next
      case False
      show ?thesis
      proof (cases "convert l ''RGB'' img1")
        case c: (Inl e)
        with Inr False step have "optimize_image l img max_size = img1"
          by (simp add: optimize_image_def)
        with s1 c Inr step show ?thesis by (auto split: if_splits)
      next
        case c: (Inr img2)
        with Inr False step have o: "optimize_image l img max_size = img2"
          by (simp add: optimize_image_def)
        from cv[OF c] have "img_size img2 = img_size img1" "img_mode img2 = ''RGB''" by simp_all
        with s1 o c Inr step show ?thesis by (auto split: if_splits)
      qed
    qed
  qed
qed

theorem optimize_image_bounds_witness:
  "fst (img_size (optimize_image sample_libs sample_image (800, 600))) \<le> 1600
   \<and> snd (img_size (optimize_image sample_libs sample_image (800, 600))) \<le> 1200
   \<and> img_mode (optimize_image sample_libs sample_image (800, 600)) \<in> {''RGB'', ''L''}"
proof -
  have th: "\<And>sz i r i'. thumbnail sample_libs sz i = (r, i')
              \<Longrightarrow> fst (img_size i') \<le> fst (img_size i) \<and> snd (img_size i') \<le> snd (img_size i)"
    by (auto simp: sample_libs_def)
  have cv: "\<And>m i i'. convert sample_libs m i = Inr i'
              \<Longrightarrow> img_size i' = img_size i \<and> img_mode i' = m"
    by (auto simp: sample_libs_def)
  have step: "(if fst (img_size sample_image) > fst (800, 600)
                  \<or> snd (img_size sample_image) > snd (800, 600)
               then thumbnail sample_libs (800, 600) sample_image else (Inr (), sample_image))
              = (Inr (), sample_image\<lparr>img_size := (800, 600)\<rparr>)"
    by (simp add: sample_libs_def sample_image_def)
  have conv: "\<exists>img2. convert sample_libs ''RGB'' (sample_image\<lparr>img_size := (800, 600)\<rparr>) = Inr img2"
    by (simp add: sample_libs_def)
  from optimize_image_bounds[where l = sample_libs and img = sample_image
                               and max_size = "(800, 600)", OF th cv] step conv
  show ?thesis by (simp add: sample_image_def)
qed

section \<open>The image cache\<close>

text \<open>
  C8, as stated, fails when the new document has no qualifying image: re-ingesting a
  text file into collection \<open>c\<close>, which has a cached image, succeeds and leaves that image
  in the cache, although the new document has no images.
\<close>

theorem process_document_cache_counterexample:
  "fst (process_document sample_libs sample_client [104, 105] ''a.txt'' ''c'' cached_state) = Inr ()
   \<and> extract_by_extension sample_libs [104, 105] ''a.txt'' = Inr (''hi'', [])
   \<and> IMAGE_CACHE (snd (process_document sample_libs sample_client [104, 105] ''a.txt'' ''c''
                        cached_state)) ''c'' = Some [sample_icon]
   \<and> Some [sample_icon] \<noteq> Some []"
proof -
  have e: "extract_by_extension sample_libs [104, 105] ''a.txt'' = Inr (''hi'', [])"
    by code_simp
  have s: "strip ''hi'' = ''hi''" by code_simp
  have sp: "split_text sample_libs ''hi'' = Inr [''hi'']" by (simp add: sample_libs_def)
  have g: "get_or_create_collection sample_client ''c'' () = (Inr ''c'', ())"
    by (simp add: get_or_create_collection_def sample_client_def)
  have "fst (store_chunks_in_batches sample_client ''c'' [''hi''] ''a.txt'' ''c'' ()) = Inr ()"
    unfolding store_chunks_in_batches_def
    by (rule store_loop_accepting) (rule sample_client_accepting)
  then have st: "store_chunks_in_batches sample_client ''c'' [''hi''] ''a.txt'' ''c'' ()
                   = (Inr (), ())"
    by (cases "store_chunks_in_batches sample_client ''c'' [''hi''] ''a.txt'' ''c'' ()") auto
  have "process_document sample_libs sample_client [104, 105] ''a.txt'' ''c'' cached_state
          = (Inr (), cached_state)"
    by (simp add: process_document_def e s sp g st cached_state_def)
  then show ?thesis using e by (simp add: cached_state_def)
qed

text \<open>
  C8, amended. After a successful (re-)ingestion into collection \<open>C\<close>, when the new
  document has at least one qualifying image the cache entry for \<open>C\<close> is the sequence of
  its optimized images (an old entry is overwritten) and all other entries are as before;
  when it has none, the whole cache, the old entry for \<open>C\<close> included, is left as it was.
\<close>

theorem process_document_cache:
  assumes "process_document l client file_bytes fname cname st = (Inr (), st')"
  shows "\<exists>text images.
           extract_by_extension l file_bytes fname = Inr (text, images)
           \<and> IMAGE_CACHE st'
               = (if images = [] then IMAGE_CACHE st
                  else (IMAGE_CACHE st)
                         (cname \<mapsto> map (\<lambda>img. optimize_image l img (800, 600)) images))"
proof (cases "extract_by_extension l file_bytes fname")
  case (Inl e)
  with assms show ?thesis by (simp add: process_document_def)
next
  case (Inr p)
  obtain content images where p: "p = (content, images)" by (cases p)
  let ?st1 = "if images \<noteq> [] then
                st\<lparr>IMAGE_CACHE := (IMAGE_CACHE st)
                     (cname \<mapsto> map (\<lambda>img. optimize_image l img (800, 600)) images)\<rparr>
              else st"
  from assms Inr p have "IMAGE_CACHE st' = IMAGE_CACHE ?st1"
    by (auto simp: process_document_def Let_def
             split: if_splits sum.splits prod.splits)
  then have "IMAGE_CACHE st'
               = (if images = [] then IMAGE_CACHE st
                  else (IMAGE_CACHE st)
                         (cname \<mapsto> map (\<lambda>img. optimize_image l img (800, 600)) images))"
    by simp
  with Inr p show ?thesis by blast
qed


theorem process_document_cache_witness:
  "fst (process_document sample_libs sample_client [37, 80, 68, 70] ''a.pdf'' ''c'' cached_state)
     = Inr ()
   \<and> IMAGE_CACHE (snd (process_document sample_libs sample_client [37, 80, 68, 70] ''a.pdf''
                        ''c'' cached_state)) ''c''
     = Some [\<lparr>img_size = (800, 600), img_mode = ''RGB'', img_data = [1, 2, 3]\<rparr>]"
proof -
  let ?run = "process_document sample_libs sample_client [37, 80, 68, 70] ''a.pdf'' ''c''
                cached_state"
  have e: "extract_by_extension sample_libs [37, 80, 68, 70] ''a.pdf''
             = Inr (''The sky is blue.'' @ [CHR 0x0A], [sample_image])"
    by code_simp
  have s: "strip (''The sky is blue.'' @ [CHR 0x0A]) = ''The sky is blue.''" by code_simp
  have sp: "split_text sample_libs (''The sky is blue.'' @ [CHR 0x0A])
              = Inr [''The sky is blue.'' @ [CHR 0x0A]]"
    by (simp add: sample_libs_def)
  have g: "get_or_create_collection sample_client ''c'' () = (Inr ''c'', ())"
    by (simp add: get_or_create_collection_def sample_client_def)
  have "fst (store_chunks_in_batches sample_client ''c'' [''The sky is blue.'' @ [CHR 0x0A]]
               ''a.pdf'' ''c'' ()) = Inr ()"
    unfolding store_chunks_in_batches_def
    by (rule store_loop_accepting) (rule sample_client_accepting)
  then have st: "store_chunks_in_batches sample_client ''c'' [''The sky is blue.'' @ [CHR 0x0A]]
                   ''a.pdf'' ''c'' () = (Inr (), ())"
    by (cases "store_chunks_in_batches sample_client ''c'' [''The sky is blue.'' @ [CHR 0x0A]]
                   ''a.pdf'' ''c'' ()") auto
  have r: "fst ?run = Inr ()"
    using e s sp g st by (simp add: process_document_def cached_state_def)
  then have run: "?run = (Inr (), snd ?run)" by (cases ?run) auto
  have o: "optimize_image sample_libs sample_image (800, 600)
             = \<lparr>img_size = (800, 600), img_mode = ''RGB'', img_data = [1, 2, 3]\<rparr>"
    by (simp add: optimize_image_def sample_libs_def sample_image_def)
  from process_document_cache[OF run] e o
  have "IMAGE_CACHE (snd ?run)
          = (IMAGE_CACHE cached_state)
              (''c'' \<mapsto> [\<lparr>img_size = (800, 600), img_mode = ''RGB'', img_data = [1, 2, 3]\<rparr>])"
    by auto
  with r show ?thesis by simp
qed

text \<open>
  C9. Deleting a collection through the endpoint leaves the image cache entirely
  unchanged, whether or not the store accepts the deletion; in particular an entry for
  the deleted collection stays.
\<close>

theorem delete_collection_keeps_image_cache:
  "IMAGE_CACHE (snd (delete_collection l client cname st)) = IMAGE_CACHE st"
  by (simp add: delete_collection_def split: prod.splits sum.splits)

section \<open>The upload endpoint\<close>

text \<open>
  C7. An upload of 50 * 1024 * 1024 + 1 bytes starts no background task, but the size-limit
  exception with status 413 is raised inside the \<open>try\<close> block, so the handler
  \<open>except Exception\<close> of the same block catches it, and what reaches the caller is an
  exception with status 500.
\<close>

theorem upload_document_too_large:
  "upload_document l \<lparr>upload_filename = fname, upload_read = Inr (replicate 52428801 0)\<rparr>
     task_uuid name_uuid_hex st
   = (Inl (HTTPException 500
            (str_exn l (HTTPException 413 ''File too large. Maximum size is 50MB.''))), st)"
  by (simp add: upload_document_def)

end
